theory Spec2Isabelle
  imports Main
begin

section \<open>JavaScript values\<close>

text \<open>
  The broker receives JSON-RPC parameters as \<^verbatim>\<open>unknown[]\<close> and casts them without any
  run-time check, so the model keeps them as untyped JavaScript values. An object is the
  finite map of its own enumerable properties.
\<close>

datatype jsval =
    JUndefined
  | JNull
  | JBool bool
  | JNum int
  | JStr string
  | JArr "jsval list"
  | JObj "string \<Rightarrow> jsval option"

type_synonym js_object = "string \<Rightarrow> jsval option"

definition digitChar :: "nat \<Rightarrow> char" where
  "digitChar d = ''0123456789'' ! d"

function decimal :: "nat \<Rightarrow> string" where
  "decimal n = (if n < 10 then [digitChar n] else decimal (n div 10) @ [digitChar (n mod 10)])"
  by pat_completeness auto
termination
  by (relation "measure id") auto

definition indexProps :: "jsval list \<Rightarrow> js_object" where
  \<comment> \<open>the index properties \<^verbatim>\<open>"0"\<close>, \<^verbatim>\<open>"1"\<close>, ... of an array or of a string\<close>
  "indexProps xs = map_of (zip (map decimal [0..<length xs]) xs)"

fun ownProps :: "jsval \<Rightarrow> js_object" where
  \<comment> \<open>what the spread \<^verbatim>\<open>{...v}\<close> copies: nothing for undefined, null, booleans and numbers\<close>
  "ownProps (JObj m) = m"
| "ownProps (JArr xs) = indexProps xs"
| "ownProps (JStr s) = indexProps (map (\<lambda>c. JStr [c]) s)"
| "ownProps _ = Map.empty"

fun nullish :: "jsval \<Rightarrow> bool" where
  "nullish JUndefined = True"
| "nullish JNull = True"
| "nullish _ = False"

fun isObject :: "jsval \<Rightarrow> bool" where
  \<comment> \<open>the values the \<^verbatim>\<open>in\<close> operator accepts on its right\<close>
  "isObject (JObj _) = True"
| "isObject (JArr _) = True"
| "isObject _ = False"

definition lookupProp :: "js_object \<Rightarrow> string \<Rightarrow> jsval" where
  "lookupProp m k = (case m k of None \<Rightarrow> JUndefined | Some v \<Rightarrow> v)"

definition getProp :: "jsval \<Rightarrow> string \<Rightarrow> jsval" where
  \<comment> \<open>the read \<^verbatim>\<open>v.k\<close> on a value that is neither undefined nor null (there the read throws,
     which every caller below checks first); the program reads no built-in property
     (\<^verbatim>\<open>length\<close>, methods) this way, so only own properties are looked up\<close>
  "getProp v k = lookupProp (ownProps v) k"

definition nthParam :: "jsval list \<Rightarrow> nat \<Rightarrow> jsval" where
  \<comment> \<open>\<^verbatim>\<open>params[i]\<close>: undefined past the end\<close>
  "nthParam params i = (if i < length params then params ! i else JUndefined)"

section \<open>Errors, networks and collaborators\<close>

datatype eip1193_code = userRejectedRequest | unsupportedMethod | chainDisconnected

datatype error =
    EIP1193Error eip1193_code
  | TypeError
  | SyntaxError
  | Error string
  | GatewayError jsval
  | RejectedByUser

text \<open>
  Modelled from the spec: the type \<^verbatim>\<open>EVMNetwork\<close> (\<^verbatim>\<open>../../networks\<close>) is not under src/.
  The broker reads only \<^verbatim>\<open>chainID\<close> of a network; the name stands for the rest of it.
\<close>

record EVMNetwork =
  name :: string
  chainID :: string

text \<open>
  Modelled from the spec: the constants \<^verbatim>\<open>ETHEREUM\<close> (\<^verbatim>\<open>../../constants\<close>) and
  \<^verbatim>\<open>TALLY_INTERNAL_ORIGIN\<close> (\<^verbatim>\<open>./constants\<close>) are not under src/: the hard-coded default
  network and the trusted internal origin constant. The theorems use only that each is
  one fixed value.
\<close>

definition ETHEREUM :: EVMNetwork where
  "ETHEREUM = \<lparr>name = ''Ethereum'', chainID = ''1''\<rparr>"

definition TALLY_INTERNAL_ORIGIN :: string where
  "TALLY_INTERNAL_ORIGIN = ''@tally-internal''"

text \<open>
  Modelled from the spec: \<^verbatim>\<open>InternalEthereumProviderDatabase\<close> (\<^verbatim>\<open>./db\<close>) is not under
  src/. The spec's \<^verbatim>\<open>ActiveNetworkSelection\<close> is an (origin, network) pair, at most one per
  origin, read by origin and overwritten by an upsert: a map from origins to pairs.
\<close>

datatype ActiveNetwork = ActiveNetwork (an_origin: string) (an_network: EVMNetwork)

type_synonym database = "string \<Rightarrow> ActiveNetwork option"

definition getActiveNetworkForOrigin :: "database \<Rightarrow> string \<Rightarrow> ActiveNetwork option" where
  "getActiveNetworkForOrigin d origin = d origin"

definition setActiveChainIdForOrigin :: "database \<Rightarrow> string \<Rightarrow> EVMNetwork \<Rightarrow> database" where
  "setActiveChainIdForOrigin d origin network = d(origin \<mapsto> ActiveNetwork origin network)"

text \<open>
  The functions and services the broker calls that are not under src/ are parameters of
  the model: \<^verbatim>\<open>toHexChainID\<close>, \<^verbatim>\<open>transactionRequestFromEthersTransactionRequest\<close>,
  \<^verbatim>\<open>decodeJSON\<close>, \<^verbatim>\<open>JSON.parse\<close>, \<^verbatim>\<open>hexlify(toUtf8Bytes(_))\<close>, \<^verbatim>\<open>parseSigningData\<close>, the
  serialisation of a signed transaction, the chain service and the preference service.
  A parser returns \<open>None\<close> where it throws; \<^verbatim>\<open>activateNetworkOrThrow\<close> returns \<open>None\<close>
  where it throws; the gateway calls \<^verbatim>\<open>send\<close> and \<^verbatim>\<open>broadcastSignedTransaction\<close> may fail.
\<close>

record env =
  toHexChainID :: "jsval \<Rightarrow> string"
  transactionRequestFromEthersTransactionRequest :: "js_object \<Rightarrow> js_object"
  decodeJSON :: "jsval \<Rightarrow> jsval option"
  JSON_parse :: "jsval \<Rightarrow> jsval option"
  hexlifyUtf8Bytes :: "string \<Rightarrow> string"
  parseSigningData :: "string \<Rightarrow> js_object"
  serializeSignedTransaction :: "jsval \<Rightarrow> jsval"
  getActiveNetworks :: "EVMNetwork list"
  activateNetworkOrThrow :: "jsval \<Rightarrow> EVMNetwork option"
  chainService_send :: "string \<Rightarrow> jsval list \<Rightarrow> EVMNetwork \<Rightarrow> error + jsval"
  broadcastSignedTransaction :: "jsval \<Rightarrow> error option"
  getSelectedAccount :: jsval

text \<open>
  The state is the per-origin table and the log of the calls made to the chain service
  (the gateway), latest call last.
\<close>

datatype gateway_call =
    GetActiveNetworks
  | MarkNetworkActivity jsval
  | ActivateNetworkOrThrow jsval
  | Send string "jsval list" EVMNetwork
  | BroadcastSignedTransaction jsval

record provider_state =
  db :: database
  gatewayLog :: "gateway_call list"

definition logCall :: "gateway_call \<Rightarrow> provider_state \<Rightarrow> provider_state" where
  "logCall c st = st\<lparr>gatewayLog := gatewayLog st @ [c]\<rparr>"

section \<open>Events and outcomes\<close>

text \<open>
  The payload of \<^verbatim>\<open>transactionSignatureRequest\<close> is the literal
  \<^verbatim>\<open>{...convertedRequest, from, network: activeNetwork, annotation}\<close>: the three named
  properties come last and shadow any property of the same name in \<^verbatim>\<open>convertedRequest\<close>,
  so \<open>tx_rest\<close> holds the other properties.
\<close>

record tx_payload =
  tx_rest :: js_object
  tx_from :: jsval
  tx_network :: EVMNetwork
  tx_annotation :: jsval

datatype request_event =
    transactionSignatureRequest tx_payload
  | signTypedDataRequest jsval EVMNetwork jsval
  | signDataRequest jsval EVMNetwork string js_object

text \<open>
  A call of the router returns a value, throws, or emits an event and stays suspended on
  the promise whose \<^verbatim>\<open>resolve\<close> and \<^verbatim>\<open>reject\<close> the event carries.
\<close>

datatype outcome = Returns jsval | Throws error | Emits request_event

section \<open>Resolving the active network\<close>

definition getInternalActiveChain :: "provider_state \<Rightarrow> ActiveNetwork option" where
  "getInternalActiveChain st = getActiveNetworkForOrigin (db st) TALLY_INTERNAL_ORIGIN"

definition getActiveOrDefaultNetwork :: "provider_state \<Rightarrow> string \<Rightarrow> error + EVMNetwork" where
  \<comment> \<open>\<^verbatim>\<open>(await this.getInternalActiveChain()).network\<close> throws a TypeError on undefined\<close>
  "getActiveOrDefaultNetwork st origin =
     (case getActiveNetworkForOrigin (db st) origin of
        None \<Rightarrow>
          (case getInternalActiveChain st of
             None \<Rightarrow> Inl TypeError
           | Some internal \<Rightarrow> Inr (an_network internal))
      | Some activeNetwork \<Rightarrow> Inr (an_network activeNetwork))"

definition getActiveNetworkByChainId ::
  "env \<Rightarrow> provider_state \<Rightarrow> jsval \<Rightarrow> EVMNetwork option \<times> provider_state" where
  "getActiveNetworkByChainId e st chainId =
     (case find (\<lambda>network. toHexChainID e (JStr (chainID network)) = toHexChainID e chainId)
             (getActiveNetworks e) of
        Some activeNetwork \<Rightarrow>
          (Some activeNetwork,
           logCall (MarkNetworkActivity (JStr (chainID activeNetwork))) (logCall GetActiveNetworks st))
      | None \<Rightarrow>
          (case activateNetworkOrThrow e chainId of
             Some activatedNetwork \<Rightarrow>
               (Some activatedNetwork,
                logCall (MarkNetworkActivity chainId)
                  (logCall (ActivateNetworkOrThrow chainId) (logCall GetActiveNetworks st)))
           | None \<Rightarrow>
               (None, logCall (ActivateNetworkOrThrow chainId) (logCall GetActiveNetworks st))))"

section \<open>Signing requests\<close>

definition annotationOf :: "env \<Rightarrow> jsval \<Rightarrow> string \<Rightarrow> error + jsval" where
  \<comment> \<open>the conditional that opens \<^verbatim>\<open>signTransaction\<close>; \<^verbatim>\<open>in\<close> throws on a primitive, and is
     reached only behind the origin test\<close>
  "annotationOf e transactionRequest origin =
     (if origin = TALLY_INTERNAL_ORIGIN then
        (if \<not> isObject transactionRequest then Inl TypeError
         else if ownProps transactionRequest ''annotation'' \<noteq> None
                 \<and> getProp transactionRequest ''annotation'' \<noteq> JUndefined
         then (case decodeJSON e (getProp transactionRequest ''annotation'') of
                 None \<Rightarrow> Inl SyntaxError
               | Some a \<Rightarrow> Inr a)
         else Inr JUndefined)
      else Inr JUndefined)"

definition ethersRequest :: "jsval \<Rightarrow> js_object" where
  \<comment> \<open>\<^verbatim>\<open>{ data: transactionRequest.input, ...transactionRequest, gasLimit: transactionRequest.gas }\<close>\<close>
  "ethersRequest transactionRequest =
     ([''data'' \<mapsto> getProp transactionRequest ''input''] ++ ownProps transactionRequest)
       (''gasLimit'' \<mapsto> getProp transactionRequest ''gas'')"

definition signTransaction :: "env \<Rightarrow> provider_state \<Rightarrow> jsval \<Rightarrow> string \<Rightarrow> outcome" where
  "signTransaction e st transactionRequest origin =
     (case annotationOf e transactionRequest origin of
        Inl err \<Rightarrow> Throws err
      | Inr annotation \<Rightarrow>
          if nullish transactionRequest then Throws TypeError
          else
            let converted = transactionRequestFromEthersTransactionRequest e
                              (ethersRequest transactionRequest);
                from = lookupProp converted ''from'';
                convertedRequest = converted(''from'' := None)
            in if from = JUndefined
               then Throws (Error ''Transactions must have a from address for signing.'')
               else
                 (case getActiveOrDefaultNetwork st origin of
                    Inl err \<Rightarrow> Throws err
                  | Inr activeNetwork \<Rightarrow>
                      Emits (transactionSignatureRequest
                        \<lparr>tx_rest = convertedRequest(''network'' := None, ''annotation'' := None),
                         tx_from = from,
                         tx_network = activeNetwork,
                         tx_annotation = annotation\<rparr>)))"

definition signTypedData :: "jsval \<Rightarrow> EVMNetwork \<Rightarrow> jsval \<Rightarrow> outcome" where
  "signTypedData address network typedData = Emits (signTypedDataRequest address network typedData)"

fun isHexDigit :: "char \<Rightarrow> bool" where
  "isHexDigit c = (c \<in> set ''0123456789ABCDEFabcdef'')"

definition matchesHex :: "string \<Rightarrow> bool" where
  \<comment> \<open>\<^verbatim>\<open>/^0x[0-9A-Fa-f]*$/\<close>\<close>
  "matchesHex s = (take 2 s = ''0x'' \<and> list_all isHexDigit (drop 2 s))"

definition signData :: "env \<Rightarrow> provider_state \<Rightarrow> jsval \<Rightarrow> jsval \<Rightarrow> string \<Rightarrow> outcome" where
  \<comment> \<open>\<^verbatim>\<open>input.match\<close> throws a TypeError unless \<^verbatim>\<open>input\<close> is a string\<close>
  "signData e st input account origin =
     (case input of
        JStr s \<Rightarrow>
          (let hexInput = (if matchesHex s then s else hexlifyUtf8Bytes e s);
               typeAndData = parseSigningData e s
           in case getActiveOrDefaultNetwork st origin of
                Inl err \<Rightarrow> Throws err
              | Inr activeNetwork \<Rightarrow>
                  Emits (signDataRequest account activeNetwork hexInput typeAndData))
      | _ \<Rightarrow> Throws TypeError)"

section \<open>The method router\<close>

definition typedDataMethods :: "string list" where
  "typedDataMethods =
     [''eth_signTypedData'', ''eth_signTypedData_v1'', ''eth_signTypedData_v3'',
      ''eth_signTypedData_v4'']"

definition passThroughMethods :: "string list" where
  "passThroughMethods =
     [''eth_blockNumber'', ''eth_call'', ''eth_estimateGas'', ''eth_feeHistory'',
      ''eth_gasPrice'', ''eth_getBalance'', ''eth_getBlockByHash'', ''eth_getBlockByNumber'',
      ''eth_getBlockTransactionCountByHash'', ''eth_getBlockTransactionCountByNumber'',
      ''eth_getCode'', ''eth_getFilterChanges'', ''eth_getFilterLogs'', ''eth_getLogs'',
      ''eth_getProof'', ''eth_getStorageAt'', ''eth_getTransactionByBlockHashAndIndex'',
      ''eth_getTransactionByBlockNumberAndIndex'', ''eth_getTransactionByHash'',
      ''eth_getTransactionCount'', ''eth_getTransactionReceipt'',
      ''eth_getUncleByBlockHashAndIndex'', ''eth_getUncleByBlockNumberAndIndex'',
      ''eth_getUncleCountByBlockHash'', ''eth_getUncleCountByBlockNumber'',
      ''eth_maxPriorityFeePerGas'', ''eth_newBlockFilter'', ''eth_newFilter'',
      ''eth_newPendingTransactionFilter'', ''eth_protocolVersion'', ''eth_sendRawTransaction'',
      ''eth_subscribe'', ''eth_syncing'', ''eth_uninstallFilter'', ''eth_unsubscribe'',
      ''net_listening'', ''net_version'', ''web3_clientVersion'', ''web3_sha3'']"

text \<open>
  \<^verbatim>\<open>routeSafeRPCRequest\<close> up to the point where it returns, throws or suspends on a
  user decision. The \<^verbatim>\<open>case\<close> labels of the source are pairwise different strings, so
  the order of the tests is immaterial; the methods the source lists in front of
  \<^verbatim>\<open>default\<close> fall into the last branch with every unknown method.
\<close>

definition routeSafeRPCRequest ::
  "env \<Rightarrow> provider_state \<Rightarrow> string \<Rightarrow> jsval list \<Rightarrow> string \<Rightarrow> outcome \<times> provider_state" where
  "routeSafeRPCRequest e st method params origin =
     (if method \<in> set typedDataMethods then
        (case getActiveOrDefaultNetwork st origin of
           Inl err \<Rightarrow> (Throws err, st)
         | Inr network \<Rightarrow>
             (case JSON_parse e (nthParam params 1) of
                None \<Rightarrow> (Throws SyntaxError, st)
              | Some typedData \<Rightarrow> (signTypedData (nthParam params 0) network typedData, st)))
      else if method = ''eth_chainId'' then
        (case getActiveOrDefaultNetwork st origin of
           Inl err \<Rightarrow> (Throws err, st)
         | Inr network \<Rightarrow> (Returns (JStr (toHexChainID e (JStr (chainID network)))), st))
      else if method \<in> set passThroughMethods then
        (case getActiveOrDefaultNetwork st origin of
           Inl err \<Rightarrow> (Throws err, st)
         | Inr network \<Rightarrow>
             ((case chainService_send e method params network of
                 Inl err \<Rightarrow> Throws err
               | Inr v \<Rightarrow> Returns v),
              logCall (Send method params network) st))
      else if method = ''eth_accounts'' then
        (let selected = getSelectedAccount e
         in if nullish selected then (Throws TypeError, st)
            else (Returns (JArr [getProp selected ''address'']), st))
      else if method = ''eth_sendTransaction'' then
        (signTransaction e st
           (JObj ((ownProps (nthParam params 0))(''nonce'' \<mapsto> JUndefined))) origin, st)
      else if method = ''eth_signTransaction'' then
        (signTransaction e st (nthParam params 0) origin, st)
      else if method = ''eth_sign'' then
        (signData e st (nthParam params 1) (nthParam params 0) origin, st)
      else if method = ''personal_sign'' then
        (signData e st (nthParam params 0) (nthParam params 1) origin, st)
      else if method = ''wallet_addEthereumChain'' \<or> method = ''wallet_switchEthereumChain'' then
        (if nullish (nthParam params 0) then (Throws TypeError, st)
         else
           (case getActiveNetworkByChainId e st (getProp (nthParam params 0) ''chainId'') of
              (Some supportedNetwork, st') \<Rightarrow>
                (Returns JNull,
                 st'\<lparr>db := setActiveChainIdForOrigin (db st') origin supportedNetwork\<rparr>)
            | (None, st') \<Rightarrow> (Throws (EIP1193Error chainDisconnected), st')))
      else (Throws (EIP1193Error unsupportedMethod), st))"

section \<open>The pending approval\<close>

text \<open>
  Each signing method returns \<^verbatim>\<open>new Promise((resolve, reject) => emit(..., {payload,
  resolver: resolve, rejecter: reject}))\<close>. The promise starts pending; the two functions
  the event carries are the promise's own resolving functions, which settle a pending
  promise and leave a settled one as it is. The user interface calls them with a plain
  value (the signed transaction or the signature) or with nothing.
\<close>

datatype promise = Pending | Fulfilled jsval | Rejected

datatype ui_call = CallResolver jsval | CallRejecter

fun invoke :: "promise \<Rightarrow> ui_call \<Rightarrow> promise" where
  "invoke Pending (CallResolver v) = Fulfilled v"
| "invoke Pending CallRejecter = Rejected"
| "invoke p _ = p"

definition settle :: "ui_call list \<Rightarrow> promise" where
  \<comment> \<open>the promise after the user interface has made these calls, in this order\<close>
  "settle calls = foldl invoke Pending calls"

datatype final = Done jsval | Failed error | Unsettled

definition afterDecision ::
  "env \<Rightarrow> provider_state \<Rightarrow> string \<Rightarrow> promise \<Rightarrow> final \<times> provider_state" where
  \<comment> \<open>the \<^verbatim>\<open>.then\<close> of \<^verbatim>\<open>eth_sendTransaction\<close> and of \<^verbatim>\<open>eth_signTransaction\<close>; the other
     signing methods return the promise itself\<close>
  "afterDecision e st method p =
     (case p of
        Pending \<Rightarrow> (Unsettled, st)
      | Rejected \<Rightarrow> (Failed RejectedByUser, st)
      | Fulfilled signed \<Rightarrow>
          if method = ''eth_sendTransaction'' then
            (case broadcastSignedTransaction e signed of
               Some err \<Rightarrow> (Failed err, logCall (BroadcastSignedTransaction signed) st)
             | None \<Rightarrow>
                 (if nullish signed then Failed TypeError else Done (getProp signed ''hash''),
                  logCall (BroadcastSignedTransaction signed) st))
          else if method = ''eth_signTransaction'' then
            (if nullish signed then Failed TypeError
             else Done (serializeSignedTransaction e signed), st)
          else (Done signed, st))"

definition awaitRoute ::
  "env \<Rightarrow> provider_state \<Rightarrow> string \<Rightarrow> jsval list \<Rightarrow> string \<Rightarrow> ui_call list
     \<Rightarrow> final \<times> provider_state" where
  \<comment> \<open>what \<^verbatim>\<open>await this.routeSafeRPCRequest(method, params, origin)\<close> yields when the user
     interface answers an emitted event with the given calls\<close>
  "awaitRoute e st method params origin calls =
     (case routeSafeRPCRequest e st method params origin of
        (Returns v, st') \<Rightarrow> (Done v, st')
      | (Throws err, st') \<Rightarrow> (Failed err, st')
      | (Emits ev, st') \<Rightarrow> afterDecision e st' method (settle calls))"

section \<open>The internal provider port\<close>

datatype response_result = Result jsval | EIP1193ErrorJSON eip1193_code

record response =
  response_id :: jsval
  response_result :: response_result

definition internalMessageHandler ::
  "env \<Rightarrow> provider_state \<Rightarrow> jsval \<Rightarrow> string \<Rightarrow> jsval list \<Rightarrow> ui_call list
     \<Rightarrow> response option \<times> provider_state" where
  \<comment> \<open>the listener on \<^verbatim>\<open>internalProviderPort\<close>: the response it posts, if the request settles\<close>
  "internalMessageHandler e st event_id method params calls =
     (case awaitRoute e st method params TALLY_INTERNAL_ORIGIN calls of
        (Done v, st') \<Rightarrow> (Some \<lparr>response_id = event_id, response_result = Result v\<rparr>, st')
      | (Failed err, st') \<Rightarrow>
          (Some \<lparr>response_id = event_id,
                 response_result = EIP1193ErrorJSON userRejectedRequest\<rparr>, st')
      | (Unsettled, st') \<Rightarrow> (None, st'))"

section \<open>WalletConnect session proposals\<close>

record required_namespace =
  rn_chains :: "string list"
  rn_methods :: "string list"
  rn_events :: "string list"

record session_namespace =
  sn_accounts :: "string list"
  sn_methods :: "string list"
  sn_events :: "string list"

record proposal =
  proposal_id :: int
  requiredNamespaces :: "string \<Rightarrow> required_namespace option"
  relays :: "string list"
  proposerUrl :: string

text \<open>
  A proposal of the legacy protocol, as far as the listener reads it: for each element of
  its \<^verbatim>\<open>params\<close> array (empty when \<^verbatim>\<open>params\<close> is no array), the \<^verbatim>\<open>peerMeta?.url\<close> of the
  element, \<open>None\<close> when undefined.
\<close>

datatype legacy_proposal = LegacyProposal (legacyPeerUrls: "string option list")

text \<open>
  The calls the bridge makes, in order: the \<^verbatim>\<open>eth_requestAccounts\<close> request it sends to the
  provider bridge on a port for the sender's URL, the calls on the sign client (\<open>relays\<close>
  holds each relay's protocol), and the calls of the legacy helpers, which are not under
  src/.
\<close>

datatype wc_call =
    RequestAccounts string
  | Approve int string "string \<Rightarrow> session_namespace option"
  | Acknowledged
  | Reject int
  | AcknowledgeLegacyProposal legacy_proposal "string list"
  | RejectLegacyProposal

fun isApprove :: "wc_call \<Rightarrow> bool" where
  "isApprove (Approve _ _ _) = True"
| "isApprove Acknowledged = True"
| "isApprove (AcknowledgeLegacyProposal _ _) = True"
| "isApprove _ = False"

definition rejectProposal :: "bool \<Rightarrow> int \<Rightarrow> wc_call list" where
  \<comment> \<open>\<^verbatim>\<open>this.signClient?.reject(...)\<close>: no call when the sign client is undefined\<close>
  "rejectProposal signClient i = (if signClient then [Reject i] else [])"

definition acknowledgeProposal :: "bool \<Rightarrow> proposal \<Rightarrow> string list \<Rightarrow> wc_call list" where
  "acknowledgeProposal signClient p selectedAccounts =
     (case requiredNamespaces p ''eip155'' of
        None \<Rightarrow> rejectProposal signClient (proposal_id p)
      | Some ethNamespace \<Rightarrow>
          let accounts = concat (map (\<lambda>chain. map (\<lambda>acc. chain @ '':'' @ acc) selectedAccounts)
                                   (rn_chains ethNamespace));
              namespaces = [''eip155'' \<mapsto>
                \<lparr>sn_accounts = accounts,
                 sn_methods = rn_methods ethNamespace,
                 sn_events = rn_events ethNamespace\<rparr>]
          in if signClient \<and> length (relays p) > 0
             then [Approve (proposal_id p) (hd (relays p)) namespaces, Acknowledged]
             else rejectProposal signClient (proposal_id p))"

text \<open>
  A message the account-selection port delivers to \<^verbatim>\<open>sessionProposalListener\<close>: its result
  is a list of accounts, an EIP-1193 error, or anything else.
\<close>

datatype port_result = ResultArray "string list" | ResultError | ResultOther

definition proposalPortCallback ::
  "bool \<Rightarrow> bool \<Rightarrow> proposal option \<Rightarrow> legacy_proposal option \<Rightarrow> port_result \<Rightarrow> wc_call list" where
  \<comment> \<open>the callback \<^verbatim>\<open>sessionProposalListener\<close> gives to its port\<close>
  "proposalPortCallback signClient isLegacy proposal legacyProposal result =
     (case result of
        ResultArray accs \<Rightarrow>
          if length accs > 0 then
            (case (isLegacy, legacyProposal) of
               (True, Some lp) \<Rightarrow> [AcknowledgeLegacyProposal lp accs]
             | _ \<Rightarrow>
                 (case proposal of
                    Some p \<Rightarrow> acknowledgeProposal signClient p accs
                  | None \<Rightarrow> []))
          else []
      | ResultError \<Rightarrow>
          if isLegacy then [RejectLegacyProposal]
          else (case proposal of
                  Some p \<Rightarrow> rejectProposal signClient (proposal_id p)
                | None \<Rightarrow> [])
      | ResultOther \<Rightarrow> [])"

definition sessionProposalListener ::
  "bool \<Rightarrow> string \<Rightarrow> bool \<Rightarrow> proposal option \<Rightarrow> legacy_proposal option \<Rightarrow> port_result list
     \<Rightarrow> wc_call list \<times> string" where
  \<comment> \<open>from the sign client's presence and the stored \<^verbatim>\<open>senderUrl\<close>: the calls made when the
     port delivers the given messages, and the \<^verbatim>\<open>senderUrl\<close> stored afterwards\<close>
  "sessionProposalListener signClient senderUrl isLegacy proposal legacyProposal messages =
     (let senderUrl' =
            (case (isLegacy, legacyProposal) of
               (True, Some lp) \<Rightarrow>
                 (case legacyPeerUrls lp of
                    [] \<Rightarrow> senderUrl
                  | url # _ \<Rightarrow> (case url of None \<Rightarrow> [] | Some u \<Rightarrow> u))
             | _ \<Rightarrow>
                 (case proposal of
                    Some p \<Rightarrow> proposerUrl p
                  | None \<Rightarrow> senderUrl))
      in if senderUrl' = [] then ([], senderUrl')
         else
           (RequestAccounts senderUrl'
              # concat (map (proposalPortCallback signClient isLegacy proposal legacyProposal)
                          messages),
            senderUrl'))"

section \<open>An instance of the collaborators\<close>

text \<open>
  Modelled from the spec: \<^verbatim>\<open>transactionRequestFromEthersTransactionRequest\<close>
  (\<^verbatim>\<open>../chain/utils\<close>) is not under src/. The spec's canonical transaction request has a
  sender, a recipient, a value, a data payload, a gas limit, the fee fields, a nonce and a
  target network; this converter keeps exactly these properties of its argument and
  drops every other one. The theorems are stated for an arbitrary converter; this one
  evaluates them at concrete requests.
\<close>

definition canonicalFields :: "js_object \<Rightarrow> js_object" where
  "canonicalFields r =
     r |` set [''from'', ''to'', ''value'', ''data'', ''gasLimit'', ''gasPrice'',
               ''maxFeePerGas'', ''maxPriorityFeePerGas'', ''nonce'', ''chainId'', ''type'']"

text \<open>
  Modelled from the spec: \<^verbatim>\<open>toHexChainID\<close> (\<^verbatim>\<open>../../networks\<close>) is not under src/; it
  yields the hex chain id. This table gives it on the two chain ids of the examples and
  leaves a string already in hex form as it is.
\<close>

definition hexChainIdTable :: "jsval \<Rightarrow> string" where
  "hexChainIdTable v =
     (if v = JStr ''1'' then ''0x1''
      else if v = JStr ''137'' then ''0x89''
      else case v of JStr s \<Rightarrow> s | _ \<Rightarrow> [])"

definition POLYGON :: EVMNetwork where
  "POLYGON = \<lparr>name = ''Polygon'', chainID = ''137''\<rparr>"

definition sampleEnv :: env where
  "sampleEnv =
     \<lparr>toHexChainID = hexChainIdTable,
      transactionRequestFromEthersTransactionRequest = canonicalFields,
      decodeJSON = (\<lambda>v. case v of JStr s \<Rightarrow> Some (JObj [''decoded'' \<mapsto> JStr s]) | _ \<Rightarrow> None),
      JSON_parse = (\<lambda>v. case v of JStr s \<Rightarrow> Some (JObj [''parsed'' \<mapsto> JStr s]) | _ \<Rightarrow> None),
      hexlifyUtf8Bytes = (\<lambda>s. ''0x''),
      parseSigningData = (\<lambda>s. Map.empty),
      serializeSignedTransaction = (\<lambda>signed. getProp signed ''raw''),
      getActiveNetworks = [ETHEREUM, POLYGON],
      activateNetworkOrThrow = (\<lambda>chainId. None),
      chainService_send = (\<lambda>method params network. Inr JNull),
      broadcastSignedTransaction = (\<lambda>signed. None),
      getSelectedAccount = JObj [''address'' \<mapsto> JStr ''0x00a1'']\<rparr>"

definition sampleState :: provider_state where
  \<comment> \<open>the internal origin has selected the default network; no other origin has an entry\<close>
  "sampleState =
     \<lparr>db = [TALLY_INTERNAL_ORIGIN \<mapsto> ActiveNetwork TALLY_INTERNAL_ORIGIN ETHEREUM],
      gatewayLog = []\<rparr>"

definition sampleRequest :: js_object where
  "sampleRequest =
     [''from'' \<mapsto> JStr ''0x00a1'', ''to'' \<mapsto> JStr ''0x00b2'', ''gas'' \<mapsto> JStr ''0x5208'',
      ''input'' \<mapsto> JStr ''0xabc'', ''nonce'' \<mapsto> JStr ''0x5'']"

definition sampleProposal :: proposal where
  \<comment> \<open>a proposal that requires a namespace other than \<^verbatim>\<open>eip155\<close>\<close>
  "sampleProposal =
     \<lparr>proposal_id = 7,
      requiredNamespaces =
        [''solana'' \<mapsto> \<lparr>rn_chains = [''solana:mainnet''], rn_methods = [], rn_events = []\<rparr>],
      relays = [''irn''],
      proposerUrl = ''https://dapp.example''\<rparr>"

section \<open>Properties of the signing requests\<close>

lemma ethersRequest_annotation:
  "ethersRequest (JObj (m(''annotation'' := a))) = (ethersRequest (JObj m))(''annotation'' := a)"
  by (rule ext)
     (auto simp: ethersRequest_def getProp_def lookupProp_def map_add_def split: option.splits)

lemma annotationOf_other_origin:
  "origin \<noteq> TALLY_INTERNAL_ORIGIN \<Longrightarrow> annotationOf e tr origin = Inr JUndefined"
  by (simp add: annotationOf_def)

lemma signTransaction_annotation_undefined:
  assumes "origin \<noteq> TALLY_INTERNAL_ORIGIN"
    and "signTransaction e st tr origin = Emits (transactionSignatureRequest p)"
  shows "tx_annotation p = JUndefined"
  using assms
  by (auto simp: signTransaction_def annotationOf_other_origin Let_def
           split: if_splits sum.splits)

lemma route_emits_transaction_request:
  assumes "routeSafeRPCRequest e st method params origin
             = (Emits (transactionSignatureRequest p), st')"
  shows "\<exists>tr. signTransaction e st tr origin = Emits (transactionSignatureRequest p)"
  using assms
  by (auto simp: routeSafeRPCRequest_def signTypedData_def signData_def Let_def
           split: if_splits sum.splits option.splits jsval.splits prod.splits)

lemma signTransaction_ignores_annotation:
  assumes "origin \<noteq> TALLY_INTERNAL_ORIGIN"
    and "\<And>r v. transactionRequestFromEthersTransactionRequest e (r(''annotation'' := v))
                 = transactionRequestFromEthersTransactionRequest e r"
  shows "signTransaction e st (JObj (m(''annotation'' := a))) origin
         = signTransaction e st (JObj m) origin"
  using assms
  by (simp add: signTransaction_def annotationOf_other_origin ethersRequest_annotation)

lemma canonicalFields_ignores_annotation:
  "canonicalFields (r(''annotation'' := v)) = canonicalFields r"
  by (rule ext) (simp add: canonicalFields_def restrict_map_def)

lemma sample_signTransaction_emits:
  "\<exists>p. routeSafeRPCRequest sampleEnv sampleState ''eth_signTransaction''
              [JObj (sampleRequest(''annotation'' \<mapsto> JStr ''{}''))] ''https://dapp.example''
         = (Emits (transactionSignatureRequest p), sampleState)"
  by (simp add: routeSafeRPCRequest_def typedDataMethods_def passThroughMethods_def
        nthParam_def signTransaction_def annotationOf_def TALLY_INTERNAL_ORIGIN_def
        sampleEnv_def sampleState_def sampleRequest_def canonicalFields_def ethersRequest_def
        getProp_def lookupProp_def getActiveOrDefaultNetwork_def getInternalActiveChain_def
        getActiveNetworkForOrigin_def Let_def)

text \<open>
  Claim C1. For a caller whose origin is not the internal origin constant, a transaction
  signature request emitted by the router carries no annotation; and, for every converter
  that does not read the \<^verbatim>\<open>annotation\<close> property, the two transaction methods do the same
  on two requests that differ only in that property (present with any value, or absent).
\<close>

theorem annotation_only_for_internal_origin:
  assumes "origin \<noteq> TALLY_INTERNAL_ORIGIN"
  shows "(\<forall>p st'. routeSafeRPCRequest e st method params origin
                     = (Emits (transactionSignatureRequest p), st')
                   \<longrightarrow> tx_annotation p = JUndefined)
       \<and> ((\<forall>r v. transactionRequestFromEthersTransactionRequest e (r(''annotation'' := v))
                    = transactionRequestFromEthersTransactionRequest e r)
            \<and> (method = ''eth_sendTransaction'' \<or> method = ''eth_signTransaction'')
          \<longrightarrow> routeSafeRPCRequest e st method (JObj (m(''annotation'' := a)) # ps) origin
              = routeSafeRPCRequest e st method (JObj (m(''annotation'' := b)) # ps) origin)"
proof (intro conjI allI impI)
  fix p st'
  assume "routeSafeRPCRequest e st method params origin
            = (Emits (transactionSignatureRequest p), st')"
  then obtain tr where "signTransaction e st tr origin = Emits (transactionSignatureRequest p)"
    using route_emits_transaction_request by blast
  with assms show "tx_annotation p = JUndefined"
    by (rule signTransaction_annotation_undefined)
next
  assume h: "(\<forall>r v. transactionRequestFromEthersTransactionRequest e (r(''annotation'' := v))
                    = transactionRequestFromEthersTransactionRequest e r)
            \<and> (method = ''eth_sendTransaction'' \<or> method = ''eth_signTransaction'')"
  then have ign: "\<And>r v. transactionRequestFromEthersTransactionRequest e (r(''annotation'' := v))
                    = transactionRequestFromEthersTransactionRequest e r"
    by blast
  have swap: "\<And>c. (m(''annotation'' := c))(''nonce'' \<mapsto> JUndefined)
                 = (m(''nonce'' \<mapsto> JUndefined))(''annotation'' := c)"
    by (rule ext) simp
  from h consider "method = ''eth_sendTransaction''" | "method = ''eth_signTransaction''"
    by blast
  then show "routeSafeRPCRequest e st method (JObj (m(''annotation'' := a)) # ps) origin
              = routeSafeRPCRequest e st method (JObj (m(''annotation'' := b)) # ps) origin"
  proof cases
    case 1
    then show ?thesis
      by (simp add: routeSafeRPCRequest_def typedDataMethods_def passThroughMethods_def
            nthParam_def swap signTransaction_ignores_annotation [OF assms ign])
  next
    case 2
    then show ?thesis
      by (simp add: routeSafeRPCRequest_def typedDataMethods_def passThroughMethods_def
            nthParam_def signTransaction_ignores_annotation [OF assms ign])
  qed
qed

theorem annotation_only_for_internal_origin_witness:
  "''https://dapp.example'' \<noteq> TALLY_INTERNAL_ORIGIN
   \<and> (\<exists>p. routeSafeRPCRequest sampleEnv sampleState ''eth_signTransaction''
              [JObj (sampleRequest(''annotation'' \<mapsto> JStr ''{}''))] ''https://dapp.example''
            = (Emits (transactionSignatureRequest p), sampleState)
          \<and> tx_annotation p = JUndefined)
   \<and> routeSafeRPCRequest sampleEnv sampleState ''eth_signTransaction''
        [JObj (sampleRequest(''annotation'' \<mapsto> JStr ''{}''))] ''https://dapp.example''
     = routeSafeRPCRequest sampleEnv sampleState ''eth_signTransaction''
        [JObj (sampleRequest(''annotation'' := None))] ''https://dapp.example''"
proof -
  have o: "''https://dapp.example'' \<noteq> TALLY_INTERNAL_ORIGIN"
    by (simp add: TALLY_INTERNAL_ORIGIN_def)
  have c: "\<forall>r v. transactionRequestFromEthersTransactionRequest sampleEnv (r(''annotation'' := v))
                    = transactionRequestFromEthersTransactionRequest sampleEnv r"
    by (simp add: sampleEnv_def canonicalFields_ignores_annotation)
  note t = annotation_only_for_internal_origin [OF o, of sampleEnv sampleState
      "''eth_signTransaction''"
      "[JObj (sampleRequest(''annotation'' \<mapsto> JStr ''{}''))]"
      sampleRequest "Some (JStr ''{}'')" "[]" None]
  show ?thesis
    using o c t sample_signTransaction_emits by auto
qed

section \<open>Properties of the pending approval\<close>





section \<open>Properties of the router\<close>

lemmas route_defs =
  routeSafeRPCRequest_def typedDataMethods_def passThroughMethods_def nthParam_def

lemmas sample_defs =
  sampleEnv_def sampleState_def sampleRequest_def canonicalFields_def hexChainIdTable_def
  TALLY_INTERNAL_ORIGIN_def ETHEREUM_def POLYGON_def

lemmas resolver_defs =
  getActiveOrDefaultNetwork_def getInternalActiveChain_def getActiveNetworkForOrigin_def

lemmas signing_defs =
  signTransaction_def annotationOf_def ethersRequest_def getProp_def lookupProp_def

lemma route_signTransaction:
  "routeSafeRPCRequest e st ''eth_signTransaction'' params origin
     = (signTransaction e st (nthParam params 0) origin, st)"
  by (simp add: routeSafeRPCRequest_def typedDataMethods_def passThroughMethods_def)

lemma route_sendTransaction:
  "routeSafeRPCRequest e st ''eth_sendTransaction'' params origin
     = (signTransaction e st
          (JObj ((ownProps (nthParam params 0))(''nonce'' \<mapsto> JUndefined))) origin, st)"
  by (simp add: routeSafeRPCRequest_def typedDataMethods_def passThroughMethods_def)

lemma ethersRequest_nonce: "ethersRequest (JObj m) ''nonce'' = m ''nonce''"
  by (simp add: ethersRequest_def map_add_def split: option.splits)

lemma annotation_attached_for_internal_origin:
  assumes "m ''annotation'' = Some v" and "v \<noteq> JUndefined"
    and "decodeJSON e v = Some a"
    and "signTransaction e st (JObj m) TALLY_INTERNAL_ORIGIN = Emits (transactionSignatureRequest p)"
  shows "tx_annotation p = a"
  using assms
  by (auto simp: signTransaction_def annotationOf_def getProp_def lookupProp_def Let_def
           split: if_splits sum.splits)

lemma sample_internal_annotation:
  "\<exists>p. routeSafeRPCRequest sampleEnv sampleState ''eth_sendTransaction''
          [JObj (sampleRequest(''annotation'' \<mapsto> JStr ''{}''))] TALLY_INTERNAL_ORIGIN
        = (Emits (transactionSignatureRequest p), sampleState)
      \<and> tx_annotation p = JObj [''decoded'' \<mapsto> JStr ''{}'']"
  by (simp add: route_sendTransaction nthParam_def signing_defs resolver_defs
        sampleEnv_def sampleState_def sampleRequest_def canonicalFields_def Let_def)

text \<open>
  Claim C3. On \<^verbatim>\<open>eth_signTransaction\<close> the router hands the caller's request to
  \<^verbatim>\<open>signTransaction\<close> as it is: the nonce \<^verbatim>\<open>0x5\<close> of the sample request is in the request
  given to the converter and, with the field-preserving converter, in the emitted
  payload. On \<^verbatim>\<open>eth_sendTransaction\<close> the same request is emitted with the nonce undefined.
\<close>

theorem signTransaction_method_keeps_nonce:
  "ethersRequest (nthParam [JObj sampleRequest] 0) ''nonce'' = Some (JStr ''0x5'')
   \<and> (\<exists>p. routeSafeRPCRequest sampleEnv sampleState ''eth_signTransaction''
              [JObj sampleRequest] ''https://dapp.example''
            = (Emits (transactionSignatureRequest p), sampleState)
          \<and> tx_rest p ''nonce'' = Some (JStr ''0x5''))
   \<and> (\<exists>p. routeSafeRPCRequest sampleEnv sampleState ''eth_sendTransaction''
              [JObj sampleRequest] ''https://dapp.example''
            = (Emits (transactionSignatureRequest p), sampleState)
          \<and> tx_rest p ''nonce'' = Some JUndefined)"
  by (simp add: route_signTransaction route_sendTransaction nthParam_def signing_defs
        resolver_defs sample_defs Let_def restrict_map_def)

lemma route_accounts:
  "routeSafeRPCRequest e st ''eth_accounts'' params origin
     = (if nullish (getSelectedAccount e) then (Throws TypeError, st)
        else (Returns (JArr [getProp (getSelectedAccount e) ''address'']), st))"
  by (simp add: routeSafeRPCRequest_def typedDataMethods_def passThroughMethods_def Let_def)

text \<open>
  Claim C4, as amended. \<^verbatim>\<open>eth_accounts\<close> makes no call to the chain service and changes
  nothing; it never returns the empty array; when the preference service yields an
  account object, it returns the array whose one element is that object's address.
\<close>

theorem eth_accounts_returns_selected_address:
  "snd (routeSafeRPCRequest e st ''eth_accounts'' params origin) = st
   \<and> fst (routeSafeRPCRequest e st ''eth_accounts'' params origin) \<noteq> Returns (JArr [])
   \<and> (\<not> nullish (getSelectedAccount e) \<longrightarrow>
        fst (routeSafeRPCRequest e st ''eth_accounts'' params origin)
          = Returns (JArr [getProp (getSelectedAccount e) ''address'']))"
proof (cases "nullish (getSelectedAccount e)")
  case True
  then have "routeSafeRPCRequest e st ''eth_accounts'' params origin = (Throws TypeError, st)"
    by (simp add: route_accounts)
  with True show ?thesis by simp
next
  case False
  then have "routeSafeRPCRequest e st ''eth_accounts'' params origin
      = (Returns (JArr [getProp (getSelectedAccount e) ''address'']), st)"
    by (simp add: route_accounts)
  with False show ?thesis by simp
qed

theorem eth_accounts_returns_selected_address_witness:
  "\<not> nullish (getSelectedAccount sampleEnv)
   \<and> routeSafeRPCRequest sampleEnv sampleState ''eth_accounts'' [] ''https://dapp.example''
     = (Returns (JArr [JStr ''0x00a1'']), sampleState)"
  using eth_accounts_returns_selected_address
          [of sampleEnv sampleState "[]" "''https://dapp.example''"]
  by (simp add: route_accounts sampleEnv_def getProp_def lookupProp_def)

theorem eth_accounts_empty_array_counterexample:
  "routeSafeRPCRequest (sampleEnv\<lparr>getSelectedAccount := JUndefined\<rparr>) sampleState
      ''eth_accounts'' [] ''https://dapp.example''
     = (Throws TypeError, sampleState)
   \<and> routeSafeRPCRequest (sampleEnv\<lparr>getSelectedAccount := JObj [''address'' \<mapsto> JStr []]\<rparr>)
        sampleState ''eth_accounts'' [] ''https://dapp.example''
     = (Returns (JArr [JStr []]), sampleState)
   \<and> routeSafeRPCRequest (sampleEnv\<lparr>getSelectedAccount := JObj Map.empty\<rparr>)
        sampleState ''eth_accounts'' [] ''https://dapp.example''
     = (Returns (JArr [JUndefined]), sampleState)"
  by (simp add: route_accounts sampleEnv_def getProp_def lookupProp_def)

section \<open>Properties of the per-origin network selection\<close>

lemma getActiveNetworkByChainId_db:
  "db (snd (getActiveNetworkByChainId e st chainId)) = db st"
  by (simp add: getActiveNetworkByChainId_def logCall_def split: option.splits)

lemma getActiveNetworkByChainId_supported:
  assumes "fst (getActiveNetworkByChainId e st chainId) = Some n"
  shows "n \<in> set (getActiveNetworks e) \<or> activateNetworkOrThrow e chainId = Some n"
  using assms
  by (auto simp: getActiveNetworkByChainId_def find_Some_iff split: option.splits)

lemma route_switch:
  assumes "method = ''wallet_switchEthereumChain'' \<or> method = ''wallet_addEthereumChain''"
  shows "routeSafeRPCRequest e st method params origin
     = (if nullish (nthParam params 0) then (Throws TypeError, st)
        else
          (case getActiveNetworkByChainId e st (getProp (nthParam params 0) ''chainId'') of
             (Some supportedNetwork, st') \<Rightarrow>
               (Returns JNull,
                st'\<lparr>db := setActiveChainIdForOrigin (db st') origin supportedNetwork\<rparr>)
           | (None, st') \<Rightarrow> (Throws (EIP1193Error chainDisconnected), st')))"
  using assms
  by (auto simp: routeSafeRPCRequest_def typedDataMethods_def passThroughMethods_def)

lemma route_switch_resolved:
  assumes "method = ''wallet_switchEthereumChain'' \<or> method = ''wallet_addEthereumChain''"
    and "\<not> nullish (nthParam params 0)"
    and "fst (getActiveNetworkByChainId e st (getProp (nthParam params 0) ''chainId'')) = Some n"
  shows "fst (routeSafeRPCRequest e st method params origin) = Returns JNull
       \<and> db (snd (routeSafeRPCRequest e st method params origin))
           = (db st)(origin \<mapsto> ActiveNetwork origin n)"
proof -
  obtain st' where g: "getActiveNetworkByChainId e st (getProp (nthParam params 0) ''chainId'')
      = (Some n, st')"
    using assms(3)
    by (cases "getActiveNetworkByChainId e st (getProp (nthParam params 0) ''chainId'')") simp
  from g have d: "db st' = db st"
    using getActiveNetworkByChainId_db [of e st "getProp (nthParam params 0) ''chainId''"]
    by simp
  show ?thesis
    by (simp add: route_switch [OF assms(1)] assms(2) g d setActiveChainIdForOrigin_def)
qed

lemma route_switch_unresolved:
  assumes "method = ''wallet_switchEthereumChain'' \<or> method = ''wallet_addEthereumChain''"
    and "\<not> nullish (nthParam params 0)"
    and "fst (getActiveNetworkByChainId e st (getProp (nthParam params 0) ''chainId'')) = None"
  shows "fst (routeSafeRPCRequest e st method params origin)
           = Throws (EIP1193Error chainDisconnected)
       \<and> db (snd (routeSafeRPCRequest e st method params origin)) = db st"
proof -
  obtain st' where g: "getActiveNetworkByChainId e st (getProp (nthParam params 0) ''chainId'')
      = (None, st')"
    using assms(3)
    by (cases "getActiveNetworkByChainId e st (getProp (nthParam params 0) ''chainId'')") simp
  from g have d: "db st' = db st"
    using getActiveNetworkByChainId_db [of e st "getProp (nthParam params 0) ''chainId''"]
    by simp
  show ?thesis
    by (simp add: route_switch [OF assms(1)] assms(2) g d)
qed

lemma route_switch_cases:
  assumes "method = ''wallet_switchEthereumChain'' \<or> method = ''wallet_addEthereumChain''"
    and "\<not> nullish (nthParam params 0)"
  shows "(case fst (getActiveNetworkByChainId e st (getProp (nthParam params 0) ''chainId'')) of
            Some n \<Rightarrow>
              fst (routeSafeRPCRequest e st method params origin) = Returns JNull
              \<and> db (snd (routeSafeRPCRequest e st method params origin))
                  = (db st)(origin \<mapsto> ActiveNetwork origin n)
          | None \<Rightarrow>
              fst (routeSafeRPCRequest e st method params origin)
                = Throws (EIP1193Error chainDisconnected)
              \<and> db (snd (routeSafeRPCRequest e st method params origin)) = db st)"
proof (cases "fst (getActiveNetworkByChainId e st (getProp (nthParam params 0) ''chainId''))")
  case None
  then show ?thesis
    using route_switch_unresolved [OF assms None] by simp
next
  case (Some n)
  then show ?thesis
    using route_switch_resolved [OF assms Some] by simp
qed

lemma sample_resolve_polygon:
  "fst (getActiveNetworkByChainId sampleEnv sampleState (JStr ''0x89'')) = Some POLYGON"
  by (simp add: getActiveNetworkByChainId_def sample_defs)

lemma sample_resolve_unknown:
  "fst (getActiveNetworkByChainId sampleEnv sampleState (JStr ''0x5'')) = None"
  by (simp add: getActiveNetworkByChainId_def sample_defs)

lemma getActiveNetworkByChainId_found:
  assumes "find (\<lambda>network. toHexChainID e (JStr (chainID network)) = toHexChainID e chainId)
             (getActiveNetworks e) = Some n"
  shows "getActiveNetworkByChainId e st chainId
           = (Some n, st\<lparr>gatewayLog := gatewayLog st
                @ [GetActiveNetworks, MarkNetworkActivity (JStr (chainID n))]\<rparr>)"
  using assms by (simp add: getActiveNetworkByChainId_def logCall_def)

lemma getActiveNetworkByChainId_activated:
  assumes "find (\<lambda>network. toHexChainID e (JStr (chainID network)) = toHexChainID e chainId)
             (getActiveNetworks e) = None"
    and "activateNetworkOrThrow e chainId = Some n"
  shows "getActiveNetworkByChainId e st chainId
           = (Some n, st\<lparr>gatewayLog := gatewayLog st
                @ [GetActiveNetworks, ActivateNetworkOrThrow chainId, MarkNetworkActivity chainId]\<rparr>)"
  using assms by (simp add: getActiveNetworkByChainId_def logCall_def)

lemma getActiveNetworkByChainId_refused:
  assumes "find (\<lambda>network. toHexChainID e (JStr (chainID network)) = toHexChainID e chainId)
             (getActiveNetworks e) = None"
    and "activateNetworkOrThrow e chainId = None"
  shows "getActiveNetworkByChainId e st chainId
           = (None, st\<lparr>gatewayLog := gatewayLog st
                @ [GetActiveNetworks, ActivateNetworkOrThrow chainId]\<rparr>)"
  using assms by (simp add: getActiveNetworkByChainId_def logCall_def)

lemma route_switch_nullish:
  assumes "method = ''wallet_switchEthereumChain'' \<or> method = ''wallet_addEthereumChain''"
    and "nullish (nthParam params 0)"
  shows "routeSafeRPCRequest e st method params origin = (Throws TypeError, st)"
  using assms by (simp add: route_switch)

text \<open>
  Claim C5, as amended. For a chain-switch or chain-add call whose first parameter is
  neither undefined nor null, the router looks the requested chain id up, by hex chain id,
  among the chain service's active networks. When one matches, it marks that network
  active, stores it for the calling origin and returns null. When none matches, it asks
  the chain service to activate the chain id: on success it stores the activated network
  for the calling origin and returns null; on failure it throws the chain-disconnected
  error and leaves the table as it was. The stored network is thus one of the active
  networks or the one the chain service activated; the router makes no other call and
  writes no other entry.
\<close>

theorem switch_chain_persists_or_disconnects:
  assumes "method = ''wallet_switchEthereumChain'' \<or> method = ''wallet_addEthereumChain''"
    and "\<not> nullish (nthParam params 0)"
  shows "(case find (\<lambda>network. toHexChainID e (JStr (chainID network))
                        = toHexChainID e (getProp (nthParam params 0) ''chainId''))
               (getActiveNetworks e) of
            Some n \<Rightarrow>
              n \<in> set (getActiveNetworks e)
              \<and> routeSafeRPCRequest e st method params origin
                  = (Returns JNull,
                     st\<lparr>db := (db st)(origin \<mapsto> ActiveNetwork origin n),
                        gatewayLog := gatewayLog st
                          @ [GetActiveNetworks, MarkNetworkActivity (JStr (chainID n))]\<rparr>)
          | None \<Rightarrow>
              (case activateNetworkOrThrow e (getProp (nthParam params 0) ''chainId'') of
                 Some n \<Rightarrow>
                   routeSafeRPCRequest e st method params origin
                     = (Returns JNull,
                        st\<lparr>db := (db st)(origin \<mapsto> ActiveNetwork origin n),
                           gatewayLog := gatewayLog st
                             @ [GetActiveNetworks,
                                ActivateNetworkOrThrow (getProp (nthParam params 0) ''chainId''),
                                MarkNetworkActivity (getProp (nthParam params 0) ''chainId'')]\<rparr>)
               | None \<Rightarrow>
                   routeSafeRPCRequest e st method params origin
                     = (Throws (EIP1193Error chainDisconnected),
                        st\<lparr>gatewayLog := gatewayLog st
                             @ [GetActiveNetworks,
                                ActivateNetworkOrThrow
                                  (getProp (nthParam params 0) ''chainId'')]\<rparr>)))"
proof (cases "find (\<lambda>network. toHexChainID e (JStr (chainID network))
                        = toHexChainID e (getProp (nthParam params 0) ''chainId''))
               (getActiveNetworks e)")
  case (Some n)
  then have "n \<in> set (getActiveNetworks e)"
    by (auto simp: find_Some_iff)
  with Some show ?thesis
    by (simp add: route_switch [OF assms(1)] assms(2) getActiveNetworkByChainId_found
          setActiveChainIdForOrigin_def)
next
  case None
  show ?thesis
  proof (cases "activateNetworkOrThrow e (getProp (nthParam params 0) ''chainId'')")
    case (Some n)
    with None show ?thesis
      by (simp add: route_switch [OF assms(1)] assms(2) getActiveNetworkByChainId_activated
            setActiveChainIdForOrigin_def)
  next
    case refused: None
    with None show ?thesis
      by (simp add: route_switch [OF assms(1)] assms(2) getActiveNetworkByChainId_refused)
  qed
qed

theorem switch_chain_persists_or_disconnects_witness:
  "\<not> nullish (nthParam [JObj [''chainId'' \<mapsto> JStr ''0x89'']] 0)
   \<and> routeSafeRPCRequest sampleEnv sampleState ''wallet_switchEthereumChain''
        [JObj [''chainId'' \<mapsto> JStr ''0x89'']] ''https://dapp.example''
     = (Returns JNull,
        sampleState\<lparr>db := (db sampleState)(''https://dapp.example''
                          \<mapsto> ActiveNetwork ''https://dapp.example'' POLYGON),
                    gatewayLog := [GetActiveNetworks, MarkNetworkActivity (JStr ''137'')]\<rparr>)
   \<and> routeSafeRPCRequest
        (sampleEnv\<lparr>getActiveNetworks := [ETHEREUM],
          activateNetworkOrThrow :=
            (\<lambda>chainId. if chainId = JStr ''0x89'' then Some POLYGON else None)\<rparr>)
        sampleState ''wallet_addEthereumChain''
        [JObj [''chainId'' \<mapsto> JStr ''0x89'']] ''https://dapp.example''
     = (Returns JNull,
        sampleState\<lparr>db := (db sampleState)(''https://dapp.example''
                          \<mapsto> ActiveNetwork ''https://dapp.example'' POLYGON),
                    gatewayLog := [GetActiveNetworks, ActivateNetworkOrThrow (JStr ''0x89''),
                                   MarkNetworkActivity (JStr ''0x89'')]\<rparr>)
   \<and> routeSafeRPCRequest sampleEnv sampleState ''wallet_addEthereumChain''
        [JObj [''chainId'' \<mapsto> JStr ''0x5'']] ''https://dapp.example''
     = (Throws (EIP1193Error chainDisconnected),
        sampleState\<lparr>gatewayLog := [GetActiveNetworks, ActivateNetworkOrThrow (JStr ''0x5'')]\<rparr>)"
proof -
  have p1: "\<not> nullish (nthParam [JObj [''chainId'' \<mapsto> JStr ''0x89'']] 0)"
    by (simp add: nthParam_def)
  have p2: "\<not> nullish (nthParam [JObj [''chainId'' \<mapsto> JStr ''0x5'']] 0)"
    by (simp add: nthParam_def)
  have c1: "getProp (nthParam [JObj [''chainId'' \<mapsto> JStr ''0x89'']] 0) ''chainId'' = JStr ''0x89''"
    by (simp add: nthParam_def getProp_def lookupProp_def)
  have c2: "getProp (nthParam [JObj [''chainId'' \<mapsto> JStr ''0x5'']] 0) ''chainId'' = JStr ''0x5''"
    by (simp add: nthParam_def getProp_def lookupProp_def)
  have l: "gatewayLog sampleState = []"
    by (simp add: sampleState_def)
  note t1 = switch_chain_persists_or_disconnects [OF _ p1, of "''wallet_switchEthereumChain''"
        sampleEnv sampleState "''https://dapp.example''"]
  note t2 = switch_chain_persists_or_disconnects [OF _ p1, of "''wallet_addEthereumChain''"
        "sampleEnv\<lparr>getActiveNetworks := [ETHEREUM],
          activateNetworkOrThrow :=
            (\<lambda>chainId. if chainId = JStr ''0x89'' then Some POLYGON else None)\<rparr>"
        sampleState "''https://dapp.example''"]
  note t3 = switch_chain_persists_or_disconnects [OF _ p2, of "''wallet_addEthereumChain''"
        sampleEnv sampleState "''https://dapp.example''"]
  from t1 have a: "routeSafeRPCRequest sampleEnv sampleState ''wallet_switchEthereumChain''
        [JObj [''chainId'' \<mapsto> JStr ''0x89'']] ''https://dapp.example''
     = (Returns JNull,
        sampleState\<lparr>db := (db sampleState)(''https://dapp.example''
                          \<mapsto> ActiveNetwork ''https://dapp.example'' POLYGON),
                    gatewayLog := [GetActiveNetworks, MarkNetworkActivity (JStr ''137'')]\<rparr>)"
    by (simp add: c1 l sampleEnv_def hexChainIdTable_def ETHEREUM_def POLYGON_def)
  from t2 have b: "routeSafeRPCRequest
        (sampleEnv\<lparr>getActiveNetworks := [ETHEREUM],
          activateNetworkOrThrow :=
            (\<lambda>chainId. if chainId = JStr ''0x89'' then Some POLYGON else None)\<rparr>)
        sampleState ''wallet_addEthereumChain''
        [JObj [''chainId'' \<mapsto> JStr ''0x89'']] ''https://dapp.example''
     = (Returns JNull,
        sampleState\<lparr>db := (db sampleState)(''https://dapp.example''
                          \<mapsto> ActiveNetwork ''https://dapp.example'' POLYGON),
                    gatewayLog := [GetActiveNetworks, ActivateNetworkOrThrow (JStr ''0x89''),
                                   MarkNetworkActivity (JStr ''0x89'')]\<rparr>)"
    by (simp add: c1 l sampleEnv_def hexChainIdTable_def ETHEREUM_def)
  from t3 have c: "routeSafeRPCRequest sampleEnv sampleState ''wallet_addEthereumChain''
        [JObj [''chainId'' \<mapsto> JStr ''0x5'']] ''https://dapp.example''
     = (Throws (EIP1193Error chainDisconnected),
        sampleState\<lparr>gatewayLog := [GetActiveNetworks, ActivateNetworkOrThrow (JStr ''0x5'')]\<rparr>)"
    by (simp add: c2 l sampleEnv_def hexChainIdTable_def ETHEREUM_def POLYGON_def)
  from p1 a b c show ?thesis by simp
qed

theorem switch_without_parameter_counterexample:
  "routeSafeRPCRequest sampleEnv sampleState ''wallet_switchEthereumChain'' []
      ''https://dapp.example'' = (Throws TypeError, sampleState)
   \<and> routeSafeRPCRequest sampleEnv sampleState ''wallet_addEthereumChain'' [JNull]
      ''https://dapp.example'' = (Throws TypeError, sampleState)
   \<and> TypeError \<noteq> EIP1193Error chainDisconnected"
  by (simp add: route_switch_nullish nthParam_def)

lemma route_chainId:
  "routeSafeRPCRequest e st ''eth_chainId'' params origin
     = (case getActiveOrDefaultNetwork st origin of
          Inl err \<Rightarrow> (Throws err, st)
        | Inr network \<Rightarrow> (Returns (JStr (toHexChainID e (JStr (chainID network)))), st))"
  by (simp add: routeSafeRPCRequest_def typedDataMethods_def)

text \<open>
  Claim C6, as amended. For an origin without an entry in the table, when the internal
  origin has one, the resolver returns the internal origin's network and \<^verbatim>\<open>eth_chainId\<close>
  returns the hex chain id of that network, leaving the state as it is.
\<close>

theorem unselected_origin_follows_internal_selection:
  assumes "db st origin = None"
    and "db st TALLY_INTERNAL_ORIGIN = Some internal"
  shows "getActiveOrDefaultNetwork st origin = Inr (an_network internal)
       \<and> routeSafeRPCRequest e st ''eth_chainId'' params origin
           = (Returns (JStr (toHexChainID e (JStr (chainID (an_network internal))))), st)"
  using assms by (simp add: route_chainId resolver_defs)

theorem unselected_origin_follows_internal_selection_witness:
  "db sampleState ''https://dapp.example'' = None
   \<and> db sampleState TALLY_INTERNAL_ORIGIN = Some (ActiveNetwork TALLY_INTERNAL_ORIGIN ETHEREUM)
   \<and> getActiveOrDefaultNetwork sampleState ''https://dapp.example'' = Inr ETHEREUM
   \<and> routeSafeRPCRequest sampleEnv sampleState ''eth_chainId'' [] ''https://dapp.example''
       = (Returns (JStr ''0x1''), sampleState)"
proof -
  have a: "db sampleState ''https://dapp.example'' = None"
    by (simp add: sampleState_def TALLY_INTERNAL_ORIGIN_def)
  have b: "db sampleState TALLY_INTERNAL_ORIGIN = Some (ActiveNetwork TALLY_INTERNAL_ORIGIN ETHEREUM)"
    by (simp add: sampleState_def)
  show ?thesis
    using a b unselected_origin_follows_internal_selection [OF a b, of sampleEnv "[]"]
    by (simp add: sampleEnv_def hexChainIdTable_def ETHEREUM_def)
qed

theorem default_network_counterexample:
  "db (sampleState\<lparr>db := [TALLY_INTERNAL_ORIGIN \<mapsto> ActiveNetwork TALLY_INTERNAL_ORIGIN POLYGON]\<rparr>)
      ''https://dapp.example'' = None
   \<and> getActiveOrDefaultNetwork
        (sampleState\<lparr>db := [TALLY_INTERNAL_ORIGIN \<mapsto> ActiveNetwork TALLY_INTERNAL_ORIGIN POLYGON]\<rparr>)
        ''https://dapp.example'' = Inr POLYGON
   \<and> POLYGON \<noteq> ETHEREUM
   \<and> routeSafeRPCRequest sampleEnv
        (sampleState\<lparr>db := [TALLY_INTERNAL_ORIGIN \<mapsto> ActiveNetwork TALLY_INTERNAL_ORIGIN POLYGON]\<rparr>)
        ''eth_chainId'' [] ''https://dapp.example''
       = (Returns (JStr ''0x89''),
          sampleState\<lparr>db := [TALLY_INTERNAL_ORIGIN \<mapsto> ActiveNetwork TALLY_INTERNAL_ORIGIN POLYGON]\<rparr>)
   \<and> toHexChainID sampleEnv (JStr (chainID ETHEREUM)) = ''0x1''
   \<and> routeSafeRPCRequest sampleEnv (sampleState\<lparr>db := Map.empty\<rparr>)
        ''eth_chainId'' [] ''https://dapp.example''
       = (Throws TypeError, sampleState\<lparr>db := Map.empty\<rparr>)"
  by (simp add: route_chainId resolver_defs sample_defs)

lemma route_db_other_origin:
  assumes "o2 \<noteq> o1"
  shows "db (snd (routeSafeRPCRequest e st method params o1)) o2 = db st o2"
proof (cases "method = ''wallet_switchEthereumChain'' \<or> method = ''wallet_addEthereumChain''")
  case True
  show ?thesis
  proof (cases "nullish (nthParam params 0)")
    case True
    with \<open>method = ''wallet_switchEthereumChain'' \<or> method = ''wallet_addEthereumChain''\<close>
    show ?thesis by (simp add: route_switch)
  next
    case False
    with True assms show ?thesis
      using route_switch_cases [of "method" "params" e st o1]
      by (auto split: option.splits)
  qed
next
  case False
  then have "snd (routeSafeRPCRequest e st method params o1) = st
           \<or> (\<exists>c. snd (routeSafeRPCRequest e st method params o1) = logCall c st)"
    by (auto simp: routeSafeRPCRequest_def Let_def split: sum.splits option.splits)
  then show ?thesis by (auto simp: logCall_def)
qed

lemma resolve_unchanged:
  assumes "db st' o2 = db st o2"
    and "db st o2 \<noteq> None \<or> db st' TALLY_INTERNAL_ORIGIN = db st TALLY_INTERNAL_ORIGIN"
  shows "getActiveOrDefaultNetwork st' o2 = getActiveOrDefaultNetwork st o2"
  using assms by (auto simp: resolver_defs split: option.splits)

text \<open>
  Claim C8, as amended. A call of the router for origin \<open>o1\<close>, a chain switch included,
  leaves the table entry of every other origin \<open>o2\<close> as it is; and the network resolved
  for \<open>o2\<close> is unchanged whenever \<open>o2\<close> has an entry of its own or \<open>o1\<close> is not the internal
  origin.
\<close>

theorem switch_leaves_other_origins:
  assumes "o1 \<noteq> o2"
  shows "db (snd (routeSafeRPCRequest e st method params o1)) o2 = db st o2
       \<and> (db st o2 \<noteq> None \<or> o1 \<noteq> TALLY_INTERNAL_ORIGIN \<longrightarrow>
            getActiveOrDefaultNetwork (snd (routeSafeRPCRequest e st method params o1)) o2
              = getActiveOrDefaultNetwork st o2)"
proof (intro conjI impI)
  show frame: "db (snd (routeSafeRPCRequest e st method params o1)) o2 = db st o2"
    using assms by (simp add: route_db_other_origin)
  assume h: "db st o2 \<noteq> None \<or> o1 \<noteq> TALLY_INTERNAL_ORIGIN"
  show "getActiveOrDefaultNetwork (snd (routeSafeRPCRequest e st method params o1)) o2
          = getActiveOrDefaultNetwork st o2"
  proof (rule resolve_unchanged [OF frame])
    from h show "db st o2 \<noteq> None
        \<or> db (snd (routeSafeRPCRequest e st method params o1)) TALLY_INTERNAL_ORIGIN
            = db st TALLY_INTERNAL_ORIGIN"
      using route_db_other_origin [of TALLY_INTERNAL_ORIGIN o1 e st "method" "params"] by auto
  qed
qed

lemma sample_switch_state:
  "db (snd (routeSafeRPCRequest sampleEnv sampleState ''wallet_switchEthereumChain''
         [JObj [''chainId'' \<mapsto> JStr ''0x89'']] origin))
     = (db sampleState)(origin \<mapsto> ActiveNetwork origin POLYGON)"
  using route_switch_cases [of "''wallet_switchEthereumChain''"
      "[JObj [''chainId'' \<mapsto> JStr ''0x89'']]" sampleEnv sampleState origin]
  by (simp add: nthParam_def getProp_def lookupProp_def sample_resolve_polygon)

theorem switch_leaves_other_origins_witness:
  "''https://dapp.example'' \<noteq> ''https://other.example''
   \<and> db (snd (routeSafeRPCRequest sampleEnv sampleState ''wallet_switchEthereumChain''
            [JObj [''chainId'' \<mapsto> JStr ''0x89'']] ''https://dapp.example''))
        ''https://other.example'' = db sampleState ''https://other.example''
   \<and> ''https://dapp.example'' \<noteq> TALLY_INTERNAL_ORIGIN
   \<and> getActiveOrDefaultNetwork
        (snd (routeSafeRPCRequest sampleEnv sampleState ''wallet_switchEthereumChain''
            [JObj [''chainId'' \<mapsto> JStr ''0x89'']] ''https://dapp.example''))
        ''https://other.example'' = Inr ETHEREUM
   \<and> getActiveOrDefaultNetwork
        (snd (routeSafeRPCRequest sampleEnv sampleState ''wallet_switchEthereumChain''
            [JObj [''chainId'' \<mapsto> JStr ''0x89'']] ''https://dapp.example''))
        ''https://dapp.example'' = Inr POLYGON"
proof -
  have d: "''https://dapp.example'' \<noteq> ''https://other.example''" by simp
  have i: "''https://dapp.example'' \<noteq> TALLY_INTERNAL_ORIGIN"
    by (simp add: TALLY_INTERNAL_ORIGIN_def)
  have r: "getActiveOrDefaultNetwork sampleState ''https://other.example'' = Inr ETHEREUM"
    by (simp add: resolver_defs sampleState_def TALLY_INTERNAL_ORIGIN_def)
  have s: "getActiveOrDefaultNetwork
        (snd (routeSafeRPCRequest sampleEnv sampleState ''wallet_switchEthereumChain''
            [JObj [''chainId'' \<mapsto> JStr ''0x89'']] ''https://dapp.example''))
        ''https://dapp.example'' = Inr POLYGON"
    by (simp add: getActiveOrDefaultNetwork_def getActiveNetworkForOrigin_def
          sample_switch_state)
  show ?thesis
    using d i r s
      switch_leaves_other_origins [OF d, of sampleEnv sampleState
        "''wallet_switchEthereumChain''" "[JObj [''chainId'' \<mapsto> JStr ''0x89'']]"]
    by simp
qed

theorem internal_switch_counterexample:
  "TALLY_INTERNAL_ORIGIN \<noteq> ''https://dapp.example''
   \<and> fst (routeSafeRPCRequest sampleEnv sampleState ''wallet_switchEthereumChain''
            [JObj [''chainId'' \<mapsto> JStr ''0x89'']] TALLY_INTERNAL_ORIGIN) = Returns JNull
   \<and> getActiveOrDefaultNetwork sampleState ''https://dapp.example'' = Inr ETHEREUM
   \<and> getActiveOrDefaultNetwork
        (snd (routeSafeRPCRequest sampleEnv sampleState ''wallet_switchEthereumChain''
            [JObj [''chainId'' \<mapsto> JStr ''0x89'']] TALLY_INTERNAL_ORIGIN))
        ''https://dapp.example'' = Inr POLYGON
   \<and> ETHEREUM \<noteq> POLYGON"
proof -
  have a: "fst (routeSafeRPCRequest sampleEnv sampleState ''wallet_switchEthereumChain''
            [JObj [''chainId'' \<mapsto> JStr ''0x89'']] TALLY_INTERNAL_ORIGIN) = Returns JNull"
    using route_switch_cases [of "''wallet_switchEthereumChain''"
      "[JObj [''chainId'' \<mapsto> JStr ''0x89'']]" sampleEnv sampleState TALLY_INTERNAL_ORIGIN]
    by (simp add: nthParam_def getProp_def lookupProp_def sample_resolve_polygon)
  have b: "getActiveOrDefaultNetwork sampleState ''https://dapp.example'' = Inr ETHEREUM"
    by (simp add: resolver_defs sampleState_def TALLY_INTERNAL_ORIGIN_def)
  have c: "getActiveOrDefaultNetwork
        (snd (routeSafeRPCRequest sampleEnv sampleState ''wallet_switchEthereumChain''
            [JObj [''chainId'' \<mapsto> JStr ''0x89'']] TALLY_INTERNAL_ORIGIN))
        ''https://dapp.example'' = Inr POLYGON"
    unfolding resolver_defs sample_switch_state
    by (simp add: sampleState_def TALLY_INTERNAL_ORIGIN_def)
  show ?thesis
    using a b c by (simp add: TALLY_INTERNAL_ORIGIN_def ETHEREUM_def POLYGON_def)
qed

section \<open>Properties of the normalisation\<close>

lemma ethersRequest_gasLimit: "ethersRequest tr ''gasLimit'' = Some (getProp tr ''gas'')"
  by (simp add: ethersRequest_def)

lemma ethersRequest_data:
  "ethersRequest tr ''data''
     = (case ownProps tr ''data'' of Some d \<Rightarrow> Some d | None \<Rightarrow> Some (getProp tr ''input''))"
  by (simp add: ethersRequest_def map_add_def split: option.splits)

lemma signTransaction_payload:
  assumes "signTransaction e st tr origin = Emits (transactionSignatureRequest p)"
  shows "tx_from p
           = lookupProp (transactionRequestFromEthersTransactionRequest e (ethersRequest tr)) ''from''
       \<and> tx_rest p
           = (transactionRequestFromEthersTransactionRequest e (ethersRequest tr))
               (''from'' := None, ''network'' := None, ''annotation'' := None)"
  using assms
  by (auto simp: signTransaction_def Let_def split: sum.splits if_splits)

text \<open>
  Claim C7. The request that \<^verbatim>\<open>signTransaction\<close> hands to the converter has, as its
  \<^verbatim>\<open>data\<close>, the caller's \<^verbatim>\<open>data\<close> property whenever the caller's request has one, and the
  caller's \<^verbatim>\<open>input\<close> only when it has none; its \<^verbatim>\<open>gasLimit\<close> is the caller's \<^verbatim>\<open>gas\<close>; the
  emitted payload is what the converter makes of exactly this request; so, for every
  converter that computes one property \<open>kd\<close> of its result from \<^verbatim>\<open>data\<close> and one property
  \<open>kg\<close> from \<^verbatim>\<open>gasLimit\<close>, the payload holds under \<open>kd\<close> what the converter makes of the
  explicit data, and under \<open>kg\<close> what it makes of the caller's gas.
\<close>

theorem data_preferred_and_gas_mapped:
  "ethersRequest tr ''gasLimit'' = Some (getProp tr ''gas'')
   \<and> ethersRequest tr ''data''
       = (case ownProps tr ''data'' of Some d \<Rightarrow> Some d | None \<Rightarrow> Some (getProp tr ''input''))
   \<and> (signTransaction e st tr origin = Emits (transactionSignatureRequest p) \<longrightarrow>
        tx_from p
          = lookupProp (transactionRequestFromEthersTransactionRequest e (ethersRequest tr)) ''from''
        \<and> tx_rest p
          = (transactionRequestFromEthersTransactionRequest e (ethersRequest tr))
              (''from'' := None, ''network'' := None, ''annotation'' := None))
   \<and> (signTransaction e st tr origin = Emits (transactionSignatureRequest p)
        \<and> (\<forall>r. transactionRequestFromEthersTransactionRequest e r kd = f (r ''data''))
        \<and> (\<forall>r. transactionRequestFromEthersTransactionRequest e r kg = g (r ''gasLimit''))
        \<and> kd \<notin> set [''from'', ''network'', ''annotation'']
        \<and> kg \<notin> set [''from'', ''network'', ''annotation''] \<longrightarrow>
        tx_rest p kd
          = f (case ownProps tr ''data'' of Some d \<Rightarrow> Some d | None \<Rightarrow> Some (getProp tr ''input''))
        \<and> tx_rest p kg = g (Some (getProp tr ''gas'')))"
proof (intro conjI impI)
  show "ethersRequest tr ''gasLimit'' = Some (getProp tr ''gas'')"
    by (rule ethersRequest_gasLimit)
  show "ethersRequest tr ''data''
       = (case ownProps tr ''data'' of Some d \<Rightarrow> Some d | None \<Rightarrow> Some (getProp tr ''input''))"
    by (rule ethersRequest_data)
next
  assume "signTransaction e st tr origin = Emits (transactionSignatureRequest p)"
  then show "tx_from p
          = lookupProp (transactionRequestFromEthersTransactionRequest e (ethersRequest tr)) ''from''"
    and "tx_rest p
          = (transactionRequestFromEthersTransactionRequest e (ethersRequest tr))
              (''from'' := None, ''network'' := None, ''annotation'' := None)"
    using signTransaction_payload by blast+
next
  assume h: "signTransaction e st tr origin = Emits (transactionSignatureRequest p)
        \<and> (\<forall>r. transactionRequestFromEthersTransactionRequest e r kd = f (r ''data''))
        \<and> (\<forall>r. transactionRequestFromEthersTransactionRequest e r kg = g (r ''gasLimit''))
        \<and> kd \<notin> set [''from'', ''network'', ''annotation'']
        \<and> kg \<notin> set [''from'', ''network'', ''annotation'']"
  then have r: "tx_rest p
          = (transactionRequestFromEthersTransactionRequest e (ethersRequest tr))
              (''from'' := None, ''network'' := None, ''annotation'' := None)"
    using signTransaction_payload by blast
  from h show "tx_rest p kd
          = f (case ownProps tr ''data'' of Some d \<Rightarrow> Some d | None \<Rightarrow> Some (getProp tr ''input''))"
    by (simp add: r ethersRequest_data)
  from h show "tx_rest p kg = g (Some (getProp tr ''gas''))"
    by (simp add: r ethersRequest_gasLimit)
qed

lemma sample_both_fields_emit:
  "signTransaction sampleEnv sampleState (JObj (sampleRequest(''data'' \<mapsto> JStr ''0xdef'')))
      ''https://dapp.example''
   = Emits (transactionSignatureRequest
       \<lparr>tx_rest = (canonicalFields (ethersRequest (JObj (sampleRequest(''data'' \<mapsto> JStr ''0xdef'')))))
                    (''from'' := None, ''network'' := None, ''annotation'' := None),
        tx_from = JStr ''0x00a1'',
        tx_network = ETHEREUM,
        tx_annotation = JUndefined\<rparr>)"
  by (simp add: signing_defs resolver_defs sampleEnv_def sampleState_def sampleRequest_def
        canonicalFields_def TALLY_INTERNAL_ORIGIN_def Let_def)

theorem data_preferred_and_gas_mapped_witness:
  "ethersRequest (JObj sampleRequest) ''gasLimit'' = Some (JStr ''0x5208'')
   \<and> ethersRequest (JObj sampleRequest) ''data'' = Some (JStr ''0xabc'')
   \<and> ethersRequest (JObj (sampleRequest(''data'' \<mapsto> JStr ''0xdef''))) ''data''
       = Some (JStr ''0xdef'')
   \<and> (\<forall>r. transactionRequestFromEthersTransactionRequest sampleEnv r ''data'' = r ''data'')
   \<and> (\<forall>r. transactionRequestFromEthersTransactionRequest sampleEnv r ''gasLimit'' = r ''gasLimit'')
   \<and> (\<exists>p. signTransaction sampleEnv sampleState
              (JObj (sampleRequest(''data'' \<mapsto> JStr ''0xdef''))) ''https://dapp.example''
            = Emits (transactionSignatureRequest p)
          \<and> tx_from p = JStr ''0x00a1''
          \<and> tx_rest p ''data'' = Some (JStr ''0xdef'')
          \<and> tx_rest p ''gasLimit'' = Some (JStr ''0x5208''))"
proof -
  have c: "\<forall>r. transactionRequestFromEthersTransactionRequest sampleEnv r ''data'' = r ''data''"
       "\<forall>r. transactionRequestFromEthersTransactionRequest sampleEnv r ''gasLimit'' = r ''gasLimit''"
    by (simp_all add: sampleEnv_def canonicalFields_def)
  have g: "getProp (JObj sampleRequest) ''gas'' = JStr ''0x5208''"
       "getProp (JObj sampleRequest) ''input'' = JStr ''0xabc''"
       "getProp (JObj (sampleRequest(''data'' \<mapsto> JStr ''0xdef''))) ''gas'' = JStr ''0x5208''"
       "sampleRequest ''data'' = None"
    by (simp_all add: getProp_def lookupProp_def sampleRequest_def)
  note t1 = data_preferred_and_gas_mapped [of "JObj sampleRequest"]
  note t2 = data_preferred_and_gas_mapped
    [of "JObj (sampleRequest(''data'' \<mapsto> JStr ''0xdef''))" sampleEnv sampleState
        "''https://dapp.example''" _ "''data''" "\<lambda>v. v" "''gasLimit''" "\<lambda>v. v"]
  from t1 have a: "ethersRequest (JObj sampleRequest) ''gasLimit'' = Some (JStr ''0x5208'')"
      and b: "ethersRequest (JObj sampleRequest) ''data'' = Some (JStr ''0xabc'')"
    by (simp_all add: g)
  from t2 have d: "ethersRequest (JObj (sampleRequest(''data'' \<mapsto> JStr ''0xdef''))) ''data''
       = Some (JStr ''0xdef'')"
    by (simp add: g)
  from t2 c have e: "signTransaction sampleEnv sampleState
              (JObj (sampleRequest(''data'' \<mapsto> JStr ''0xdef''))) ''https://dapp.example''
            = Emits (transactionSignatureRequest p)
        \<Longrightarrow> tx_rest p ''data'' = Some (JStr ''0xdef'') \<and> tx_rest p ''gasLimit'' = Some (JStr ''0x5208'')"
    for p
    by (simp add: g)
  show ?thesis
    using a b d c e [OF sample_both_fields_emit] sample_both_fields_emit by simp
qed

section \<open>Properties of the session proposals\<close>

lemma rejectProposal_no_approve: "filter isApprove (rejectProposal signClient i) = []"
  by (simp add: rejectProposal_def)

lemma acknowledgeProposal_without_eip155:
  assumes "requiredNamespaces p ''eip155'' = None"
  shows "acknowledgeProposal signClient p selectedAccounts = rejectProposal signClient (proposal_id p)"
  using assms by (simp add: acknowledgeProposal_def)

lemma proposalPortCallback_without_eip155:
  assumes "requiredNamespaces p ''eip155'' = None"
  shows "proposalPortCallback signClient False (Some p) None result
           = (case result of
                ResultArray accs \<Rightarrow>
                  if accs = [] then [] else rejectProposal signClient (proposal_id p)
              | ResultError \<Rightarrow> rejectProposal signClient (proposal_id p)
              | ResultOther \<Rightarrow> [])"
  by (cases result)
     (simp_all add: proposalPortCallback_def acknowledgeProposal_without_eip155 [OF assms])

lemma filter_isApprove_concat:
  assumes "\<And>x. x \<in> set xs \<Longrightarrow> filter isApprove (f x) = []"
  shows "filter isApprove (concat (map f xs)) = []"
  using assms by (induction xs) simp_all

text \<open>
  Claim C9, as amended. On a session proposal of protocol version 2 whose required
  namespaces have no \<^verbatim>\<open>eip155\<close> entry, the bridge first asks the provider bridge for
  accounts, on a port for the proposer's URL, and makes no call at all when that URL is
  empty. For each message of the port whose result is a non-empty list of accounts or an
  EIP-1193 error it then takes the reject path (a reject call for the proposal's id when
  there is a sign client), and for any other message it does nothing. It never issues an
  approve or an acknowledgement for the proposal, and \<^verbatim>\<open>acknowledgeProposal\<close>, once reached,
  does nothing but reject.
\<close>

theorem proposal_without_eip155_never_approved:
  assumes "requiredNamespaces p ''eip155'' = None"
  shows "fst (sessionProposalListener signClient senderUrl False (Some p) None messages)
           = (if proposerUrl p = [] then []
              else RequestAccounts (proposerUrl p)
                     # concat (map (\<lambda>result.
                          case result of
                            ResultArray accs \<Rightarrow>
                              if accs = [] then [] else rejectProposal signClient (proposal_id p)
                          | ResultError \<Rightarrow> rejectProposal signClient (proposal_id p)
                          | ResultOther \<Rightarrow> []) messages))
       \<and> filter isApprove
            (fst (sessionProposalListener signClient senderUrl False (Some p) None messages)) = []
       \<and> acknowledgeProposal signClient p selectedAccounts
           = rejectProposal signClient (proposal_id p)
       \<and> acknowledgeProposal True p selectedAccounts = [Reject (proposal_id p)]"
proof -
  have cb: "proposalPortCallback signClient False (Some p) None
              = (\<lambda>result.
                   case result of
                     ResultArray accs \<Rightarrow>
                       if accs = [] then [] else rejectProposal signClient (proposal_id p)
                   | ResultError \<Rightarrow> rejectProposal signClient (proposal_id p)
                   | ResultOther \<Rightarrow> [])"
    by (rule ext) (rule proposalPortCallback_without_eip155 [OF assms])
  have 1: "fst (sessionProposalListener signClient senderUrl False (Some p) None messages)
           = (if proposerUrl p = [] then []
              else RequestAccounts (proposerUrl p)
                     # concat (map (\<lambda>result.
                          case result of
                            ResultArray accs \<Rightarrow>
                              if accs = [] then [] else rejectProposal signClient (proposal_id p)
                          | ResultError \<Rightarrow> rejectProposal signClient (proposal_id p)
                          | ResultOther \<Rightarrow> []) messages))"
    by (simp add: sessionProposalListener_def cb Let_def)
  have na: "filter isApprove
       (case result of
          ResultArray accs \<Rightarrow> if accs = [] then [] else rejectProposal signClient (proposal_id p)
        | ResultError \<Rightarrow> rejectProposal signClient (proposal_id p)
        | ResultOther \<Rightarrow> []) = []" for result
    by (cases result) (simp_all add: rejectProposal_no_approve)
  have 2: "filter isApprove
            (fst (sessionProposalListener signClient senderUrl False (Some p) None messages)) = []"
    unfolding 1 by (simp add: filter_isApprove_concat na)
  have 3: "acknowledgeProposal sc p selectedAccounts = rejectProposal sc (proposal_id p)" for sc
    by (rule acknowledgeProposal_without_eip155 [OF assms])
  from 1 2 3 show ?thesis
    by (simp add: rejectProposal_def)
qed


theorem proposal_without_eip155_never_approved_witness:
  "requiredNamespaces sampleProposal ''eip155'' = None
   \<and> fst (sessionProposalListener True [] False (Some sampleProposal) None
            [ResultArray [''0x00a1'']])
       = [RequestAccounts ''https://dapp.example'', Reject 7]
   \<and> fst (sessionProposalListener True [] False (Some sampleProposal) None [ResultError])
       = [RequestAccounts ''https://dapp.example'', Reject 7]
   \<and> acknowledgeProposal True sampleProposal [''0x00a1''] = [Reject 7]"
proof -
  have h: "requiredNamespaces sampleProposal ''eip155'' = None"
    by (simp add: sampleProposal_def)
  have f: "proposerUrl sampleProposal = ''https://dapp.example''" "proposal_id sampleProposal = 7"
    by (simp_all add: sampleProposal_def)
  show ?thesis
    using h
      proposal_without_eip155_never_approved [OF h, of True "[]" "[ResultArray [''0x00a1'']]"
        "[''0x00a1'']"]
      proposal_without_eip155_never_approved [OF h, of True "[]" "[ResultError]" "[''0x00a1'']"]
    by (simp add: f rejectProposal_def)
qed

theorem proposal_not_rejected_counterexample:
  "requiredNamespaces sampleProposal ''eip155'' = None
   \<and> fst (sessionProposalListener True [] False (Some sampleProposal) None [])
       = [RequestAccounts ''https://dapp.example'']
   \<and> fst (sessionProposalListener True [] False (Some sampleProposal) None [ResultOther])
       = [RequestAccounts ''https://dapp.example'']
   \<and> fst (sessionProposalListener True [] False (Some sampleProposal) None [ResultArray []])
       = [RequestAccounts ''https://dapp.example'']
   \<and> fst (sessionProposalListener True ''https://earlier.example'' False
            (Some (sampleProposal\<lparr>proposerUrl := []\<rparr>)) None [ResultArray [''0x00a1'']])
       = []
   \<and> fst (sessionProposalListener True [] False (Some sampleProposal) None
            [ResultArray [''0x00a1'']])
       = [RequestAccounts ''https://dapp.example'', Reject 7]"
  by (simp add: sessionProposalListener_def proposalPortCallback_def acknowledgeProposal_def
        rejectProposal_def sampleProposal_def Let_def)

section \<open>Properties of the internal provider port\<close>

text \<open>
  Claim C10. Whenever the routing of a request that arrived on the internal provider port
  fails, with whatever error, the response posted to the port carries the request's id and
  the user-rejected-request error, and nothing of the error that occurred.
\<close>

theorem internal_port_failure_is_user_rejected:
  assumes "fst (awaitRoute e st method params TALLY_INTERNAL_ORIGIN calls) = Failed err"
  shows "fst (internalMessageHandler e st event_id method params calls)
           = Some \<lparr>response_id = event_id,
                   response_result = EIP1193ErrorJSON userRejectedRequest\<rparr>"
  using assms
  by (cases "awaitRoute e st method params TALLY_INTERNAL_ORIGIN calls")
     (simp add: internalMessageHandler_def)

lemma sample_unsupported_fails:
  "fst (awaitRoute sampleEnv sampleState ''eth_coinbase'' [] TALLY_INTERNAL_ORIGIN [])
     = Failed (EIP1193Error unsupportedMethod)"
  by (simp add: awaitRoute_def route_defs)

lemma sample_disconnected_fails:
  "fst (awaitRoute sampleEnv sampleState ''wallet_switchEthereumChain''
          [JObj [''chainId'' \<mapsto> JStr ''0x5'']] TALLY_INTERNAL_ORIGIN [])
     = Failed (EIP1193Error chainDisconnected)"
proof -
  have "fst (routeSafeRPCRequest sampleEnv sampleState ''wallet_switchEthereumChain''
          [JObj [''chainId'' \<mapsto> JStr ''0x5'']] TALLY_INTERNAL_ORIGIN)
        = Throws (EIP1193Error chainDisconnected)"
    using route_switch_cases [of "''wallet_switchEthereumChain''"
      "[JObj [''chainId'' \<mapsto> JStr ''0x5'']]" sampleEnv sampleState TALLY_INTERNAL_ORIGIN]
    by (simp add: nthParam_def getProp_def lookupProp_def sample_resolve_unknown)
  then show ?thesis
    by (cases "routeSafeRPCRequest sampleEnv sampleState ''wallet_switchEthereumChain''
          [JObj [''chainId'' \<mapsto> JStr ''0x5'']] TALLY_INTERNAL_ORIGIN")
       (simp add: awaitRoute_def)
qed

theorem internal_port_failure_is_user_rejected_witness:
  "fst (awaitRoute sampleEnv sampleState ''eth_coinbase'' [] TALLY_INTERNAL_ORIGIN [])
     = Failed (EIP1193Error unsupportedMethod)
   \<and> fst (internalMessageHandler sampleEnv sampleState (JNum 1) ''eth_coinbase'' [] [])
     = Some \<lparr>response_id = JNum 1, response_result = EIP1193ErrorJSON userRejectedRequest\<rparr>
   \<and> fst (awaitRoute sampleEnv sampleState ''wallet_switchEthereumChain''
          [JObj [''chainId'' \<mapsto> JStr ''0x5'']] TALLY_INTERNAL_ORIGIN [])
     = Failed (EIP1193Error chainDisconnected)
   \<and> fst (internalMessageHandler sampleEnv sampleState (JNum 1) ''wallet_switchEthereumChain''
          [JObj [''chainId'' \<mapsto> JStr ''0x5'']] [])
     = Some \<lparr>response_id = JNum 1, response_result = EIP1193ErrorJSON userRejectedRequest\<rparr>"
  using sample_unsupported_fails sample_disconnected_fails
    internal_port_failure_is_user_rejected [OF sample_unsupported_fails, of "JNum 1"]
    internal_port_failure_is_user_rejected [OF sample_disconnected_fails, of "JNum 1"]
  by simp

section \<open>Properties of the awaited result\<close>









end
